theory Spec2Isabelle
  imports Main "HOL-Library.Word" "HOL-Library.AList" "HOL-Library.List_Lexorder" "HOL-Library.Char_ord"
begin

section \<open>Errors as values\<close>

text \<open>
  Every \<^verbatim>\<open>raise\<close> of the source is a value of \<open>error\<close>; a computation that may raise
  returns \<open>error + 'a\<close>, with \<open>Inl\<close> the exception.
\<close>

datatype error =
    ValueError | KeyError | TypeError | IndexError | AssertionError
  | BadRequest | QueryComplexityError

fun bind_err :: "error + 'a \<Rightarrow> ('a \<Rightarrow> error + 'b) \<Rightarrow> error + 'b" where
  "bind_err (Inl e) f = Inl e"
| "bind_err (Inr x) f = f x"

fun map_err :: "('a \<Rightarrow> error + 'b) \<Rightarrow> 'a list \<Rightarrow> error + 'b list" where
  "map_err f [] = Inr []"
| "map_err f (x # xs) = bind_err (f x) (\<lambda>y. bind_err (map_err f xs) (\<lambda>ys. Inr (y # ys)))"

lemma bind_err_cong [fundef_cong]:
  "m = m' \<Longrightarrow> (\<And>x. m' = Inr x \<Longrightarrow> f x = f' x) \<Longrightarrow> bind_err m f = bind_err m' f'"
  by (cases m') auto

lemma map_err_cong [fundef_cong]:
  "xs = ys \<Longrightarrow> (\<And>x. x \<in> set ys \<Longrightarrow> f x = g x) \<Longrightarrow> map_err f xs = map_err g ys"
  by (induction ys arbitrary: xs) auto

section \<open>Collaborating modules of the node hierarchy\<close>

text \<open>
  Modelled from the spec: \<^verbatim>\<open>bigframes.core.schema\<close>, \<^verbatim>\<open>bigframes.dtypes\<close>,
  \<^verbatim>\<open>bigframes.core.expression\<close>, \<^verbatim>\<open>bigframes.core.ordering\<close>,
  \<^verbatim>\<open>bigframes.core.join_def\<close> and \<^verbatim>\<open>google.cloud.bigquery.SchemaField\<close> are not
  part of the two source units. A schema is the spec's "ordered sequence of (column id,
  logical type) pairs"; of the other types only the attributes that \<^verbatim>\<open>nodes.py\<close> reads
  are kept.
\<close>

type_synonym dtype = string

definition INT_DTYPE :: dtype where
  "INT_DTYPE = ''Int64''"

definition DEFAULT_DTYPE :: dtype where
  "DEFAULT_DTYPE = ''Float64''"

type_synonym SchemaItem = "string \<times> dtype"
type_synonym ArraySchema = "SchemaItem list"

definition names :: "ArraySchema \<Rightarrow> string list" where
  "names s = map fst s"

definition dtypes :: "ArraySchema \<Rightarrow> dtype list" where
  "dtypes s = map snd s"

text \<open>The dictionary \<^verbatim>\<open>{item.column: item.dtype for item in items}\<close>: a later item wins.\<close>

definition mapping :: "ArraySchema \<Rightarrow> (string \<rightharpoonup> dtype)" where
  "mapping s = map_of (rev s)"

definition get_type :: "ArraySchema \<Rightarrow> string \<Rightarrow> error + dtype" where
  "get_type s c = (case mapping s c of None \<Rightarrow> Inl KeyError | Some t \<Rightarrow> Inr t)"

definition prepend :: "ArraySchema \<Rightarrow> SchemaItem \<Rightarrow> ArraySchema" where
  "prepend s item = item # s"

definition append_item :: "ArraySchema \<Rightarrow> SchemaItem \<Rightarrow> ArraySchema" where
  "append_item s item = s @ [item]"

definition update_dtype :: "ArraySchema \<Rightarrow> string \<Rightarrow> dtype \<Rightarrow> ArraySchema" where
  "update_dtype s c t = map (\<lambda>item. if fst item = c then (c, t) else item) s"

definition dtype_for_etype :: "dtype option \<Rightarrow> dtype" where
  "dtype_for_etype e = (case e of None \<Rightarrow> DEFAULT_DTYPE | Some t \<Rightarrow> t)"

datatype expression =
    ScalarConstantExpression int
  | UnboundVariableExpression string
  | OpExpression string "expression list"

fun unbound_variables :: "expression \<Rightarrow> string list" where
  "unbound_variables (ScalarConstantExpression v) = []"
| "unbound_variables (UnboundVariableExpression c) = [c]"
| "unbound_variables (OpExpression f inputs) = concat (map unbound_variables inputs)"

fun is_identity :: "expression \<Rightarrow> bool" where
  "is_identity (UnboundVariableExpression c) = True"
| "is_identity e = False"

datatype OrderingExpression =
  OrderingExpression (scalar_expression: expression) (ascending: bool) (na_last: bool)

datatype row_ordering =
    RowOrdering "OrderingExpression list"
  | TotalOrdering "OrderingExpression list" "string list"

fun ordering_value_columns :: "row_ordering \<Rightarrow> OrderingExpression list" where
  "ordering_value_columns (RowOrdering cols) = cols"
| "ordering_value_columns (TotalOrdering cols total_cols) = cols"

definition referenced_columns :: "row_ordering \<Rightarrow> string set" where
  "referenced_columns ord =
     set (concat (map (\<lambda>part. unbound_variables (scalar_expression part))
       (ordering_value_columns ord)))"

fun is_TotalOrdering :: "row_ordering option \<Rightarrow> bool" where
  "is_TotalOrdering (Some (TotalOrdering cols total_cols)) = True"
| "is_TotalOrdering ord = False"

datatype JoinSide = LEFT | RIGHT

record JoinColumnMapping =
  source_table :: JoinSide
  source_id :: string
  destination_id :: string

record JoinDefinition =
  conditions :: "(string \<times> string) list"
  mappings :: "JoinColumnMapping list"
  join_type :: string

record SchemaField =
  name :: string
  field_type :: string

typedecl Aggregation
typedecl UnaryWindowOp
typedecl WindowSpec
typedecl datetime
typedecl pyfloat

text \<open>A session object is known by its identity only.\<close>

type_synonym session_id = nat

text \<open>
  The typing functions of the expression, aggregation and dtype modules, taken as
  parameters: \<^verbatim>\<open>Expression.output_type\<close> and \<^verbatim>\<open>Aggregation.output_type\<close> (either may
  raise), \<^verbatim>\<open>UnaryWindowOp.output_type\<close>, and the element type of an array dtype
  (\<^verbatim>\<open>arrow_dtype_to_bigframes_dtype(t.pyarrow_dtype.value_type)\<close>).
\<close>

record typing =
  output_type :: "expression \<Rightarrow> (string \<rightharpoonup> dtype) \<Rightarrow> error + dtype option"
  agg_output_type :: "Aggregation \<Rightarrow> (string \<rightharpoonup> dtype) \<Rightarrow> error + dtype option"
  window_output_type :: "UnaryWindowOp \<Rightarrow> dtype \<Rightarrow> error + dtype"
  array_value_type :: "dtype \<Rightarrow> error + dtype"

section \<open>The node hierarchy of \<^verbatim>\<open>nodes.py\<close>\<close>

definition OVERHEAD_VARIABLES :: int where
  "OVERHEAD_VARIABLES = 5"

record ReadTable =
  project_id :: string
  dataset_id :: string
  table_id :: string
  physical_schema :: "SchemaField list"
  columns :: ArraySchema
  table_session :: session_id
  total_order_cols :: "string list"
  order_col_is_sequential :: bool
  at_time :: "datetime option"
  sql_predicate :: "string option"

record WindowOp =
  column_name :: string
  op :: UnaryWindowOp
  window_spec :: WindowSpec
  output_name :: "string option"
  never_skip_nulls :: bool
  skip_reproject_unsafe :: bool

text \<open>
  One constructor per dataclass, its arguments the dataclass fields in declaration order
  (the inherited \<^verbatim>\<open>child\<close> first). The fields of \<^verbatim>\<open>ReadTableNode\<close> and the non-child
  fields of \<^verbatim>\<open>WindowOpNode\<close> are grouped in a record. \<^verbatim>\<open>CachedTableNode\<close> takes
  \<^verbatim>\<open>original_node\<close>, \<^verbatim>\<open>project_id\<close>, \<^verbatim>\<open>dataset_id\<close>, \<^verbatim>\<open>table_id\<close>,
  \<^verbatim>\<open>physical_schema\<close>, \<^verbatim>\<open>ordering\<close>.
\<close>

datatype node =
    JoinNode node node JoinDefinition
  | ConcatNode "node list"
  | ReadLocalNode string ArraySchema "session_id option"
  | ReadTableNode ReadTable
  | CachedTableNode node string string string "SchemaField list" "row_ordering option"
  | PromoteOffsetsNode node string
  | FilterNode node expression
  | OrderByNode node "OrderingExpression list"
  | ReversedNode node bool
  | ProjectionNode node "(expression \<times> string) list"
  | RowCountNode node
  | AggregateNode node "(Aggregation \<times> string) list" "string list" bool
  | WindowOpNode node WindowOp
  | ReprojectOpNode node
  | RandomSampleNode node pyfloat
  | ExplodeNode node "string list"

fun child_nodes :: "node \<Rightarrow> node list" where
  "child_nodes (JoinNode left_child right_child j) = [left_child, right_child]"
| "child_nodes (ConcatNode children) = children"
| "child_nodes (ReadLocalNode feather_bytes data_schema s) = []"
| "child_nodes (ReadTableNode t) = []"
| "child_nodes (CachedTableNode original_node p d t phys ord) = []"
| "child_nodes (PromoteOffsetsNode child col_id) = [child]"
| "child_nodes (FilterNode child predicate) = [child]"
| "child_nodes (OrderByNode child by_exprs) = [child]"
| "child_nodes (ReversedNode child reversed) = [child]"
| "child_nodes (ProjectionNode child assignments) = [child]"
| "child_nodes (RowCountNode child) = [child]"
| "child_nodes (AggregateNode child aggregations by_column_ids dropna) = [child]"
| "child_nodes (WindowOpNode child w) = [child]"
| "child_nodes (ReprojectOpNode child) = [child]"
| "child_nodes (RandomSampleNode child fraction) = [child]"
| "child_nodes (ExplodeNode child column_ids) = [child]"

subsection \<open>Schemas\<close>

text \<open>Python's \<^verbatim>\<open>str(i)\<close> of a non-negative integer, used by \<^verbatim>\<open>f"column_{i}"\<close>.\<close>

fun str_nat :: "nat \<Rightarrow> string" where
  "str_nat n =
     (if n < 10 then [char_of (48 + n)] else str_nat (n div 10) @ [char_of (48 + n mod 10)])"

definition concat_items :: "dtype list \<Rightarrow> ArraySchema" where
  "concat_items ts = map (\<lambda>(i, t). (''column_'' @ str_nat i, t)) (enumerate 0 ts)"

text \<open>
  The \<^verbatim>\<open>schema\<close> property of each class. It is computed on access and may raise: a
  \<^verbatim>\<open>KeyError\<close> from \<^verbatim>\<open>get_type\<close>, an \<^verbatim>\<open>IndexError\<close> from \<^verbatim>\<open>children[0]\<close>, or what
  the typing functions raise.
\<close>

fun schema :: "typing \<Rightarrow> node \<Rightarrow> error + ArraySchema" where
  "schema X (JoinNode left_child right_child j) =
     map_err (\<lambda>m.
        bind_err (bind_err (if source_table m = LEFT then schema X left_child
                            else schema X right_child)
                    (\<lambda>s. get_type s (source_id m)))
          (\<lambda>t. Inr (destination_id m, t)))
       (mappings j)"
| "schema X (ConcatNode []) = Inl IndexError"
| "schema X (ConcatNode (c # cs)) = bind_err (schema X c) (\<lambda>s. Inr (concat_items (dtypes s)))"
| "schema X (ReadLocalNode feather_bytes data_schema s) = Inr data_schema"
| "schema X (ReadTableNode t) = Inr (columns t)"
| "schema X (CachedTableNode original_node p d t phys ord) = schema X original_node"
| "schema X (PromoteOffsetsNode child col_id) =
     bind_err (schema X child) (\<lambda>s. Inr (prepend s (col_id, INT_DTYPE)))"
| "schema X (FilterNode child predicate) = schema X child"
| "schema X (OrderByNode child by_exprs) = schema X child"
| "schema X (ReversedNode child reversed) = schema X child"
| "schema X (ProjectionNode child assignments) =
     bind_err (schema X child) (\<lambda>s.
       map_err (\<lambda>(e, c). bind_err (output_type X e (mapping s))
                  (\<lambda>t. Inr (c, dtype_for_etype t)))
         assignments)"
| "schema X (RowCountNode child) = Inr [(''count'', INT_DTYPE)]"
| "schema X (AggregateNode child aggregations by_column_ids dropna) =
     bind_err (map_err (\<lambda>c. bind_err (bind_err (schema X child) (\<lambda>s. get_type s c))
                          (\<lambda>t. Inr (c, t))) by_column_ids)
       (\<lambda>by_items. bind_err (schema X child) (\<lambda>s.
          bind_err (map_err (\<lambda>(a, c). bind_err (agg_output_type X a (mapping s))
                               (\<lambda>t. Inr (c, dtype_for_etype t))) aggregations)
            (\<lambda>agg_items. Inr (by_items @ agg_items))))"
| "schema X (WindowOpNode child w) =
     bind_err (schema X child) (\<lambda>s.
     bind_err (get_type s (column_name w)) (\<lambda>input_type.
     bind_err (window_output_type X (op w) input_type) (\<lambda>new_item_dtype.
       (case output_name w of
          None \<Rightarrow> Inr (update_dtype s (column_name w) new_item_dtype)
        | Some out \<Rightarrow>
            if out \<in> set (names s) then Inr (update_dtype s out new_item_dtype)
            else Inr (append_item s (out, new_item_dtype))))))"
| "schema X (ReprojectOpNode child) = schema X child"
| "schema X (RandomSampleNode child fraction) = schema X child"
| "schema X (ExplodeNode child column_ids) =
     bind_err (schema X child) (\<lambda>s.
       map_err (\<lambda>c. bind_err (get_type s c) (\<lambda>t.
                  if c \<in> set column_ids
                  then bind_err (array_value_type X t) (\<lambda>v. Inr (c, v))
                  else Inr (c, t)))
         (names s))"

subsection \<open>Cost metrics\<close>

fun variables_introduced :: "typing \<Rightarrow> node \<Rightarrow> error + int" where
  "variables_introduced X (JoinNode left_child right_child j) = Inr OVERHEAD_VARIABLES"
| "variables_introduced X (ConcatNode children) =
     bind_err (schema X (ConcatNode children)) (\<lambda>s. Inr (int (length s) + OVERHEAD_VARIABLES))"
| "variables_introduced X (ReadLocalNode feather_bytes data_schema s) =
     Inr (int (length data_schema) + 1)"
| "variables_introduced X (ReadTableNode t) = Inr (int (length (columns t)) + 1)"
| "variables_introduced X (CachedTableNode original_node p d t phys ord) =
     bind_err (schema X (CachedTableNode original_node p d t phys ord))
       (\<lambda>s. Inr (int (length s) + OVERHEAD_VARIABLES))"
| "variables_introduced X (PromoteOffsetsNode child col_id) = Inr 1"
| "variables_introduced X (FilterNode child predicate) = Inr 1"
| "variables_introduced X (OrderByNode child by_exprs) = Inr 0"
| "variables_introduced X (ReversedNode child reversed) = Inr 0"
| "variables_introduced X (ProjectionNode child assignments) =
     Inr (int (length (filter (\<lambda>i. \<not> is_identity (fst i)) assignments)))"
| "variables_introduced X (RowCountNode child) = Inr 1"
| "variables_introduced X (AggregateNode child aggregations by_column_ids dropna) =
     Inr (int (length aggregations) + int (length by_column_ids))"
| "variables_introduced X (WindowOpNode child w) = Inr 1"
| "variables_introduced X (ReprojectOpNode child) = Inr 0"
| "variables_introduced X (RandomSampleNode child fraction) = Inr 1"
| "variables_introduced X (ExplodeNode child column_ids) = Inr (int (length column_ids) + 1)"

fun relation_ops_created :: "node \<Rightarrow> int" where
  "relation_ops_created (ReadTableNode t) = 3"
| "relation_ops_created (PromoteOffsetsNode child col_id) = 2"
| "relation_ops_created (OrderByNode child by_exprs) = 0"
| "relation_ops_created (ReversedNode child reversed) = 0"
| "relation_ops_created (WindowOpNode child w) = (if skip_reproject_unsafe w then 0 else 4)"
| "relation_ops_created (ReprojectOpNode child) = 0"
| "relation_ops_created (ExplodeNode child column_ids) = 3"
| "relation_ops_created n = 1"

fun joins :: "node \<Rightarrow> bool" where
  "joins (JoinNode left_child right_child j) = True"
| "joins n = False"

lemma size_child_nodes: "c \<in> set (child_nodes n) \<Longrightarrow> size c < size n"
  by (cases n) (auto simp: less_Suc_eq_le dest: size_list_estimation')

function total_variables :: "typing \<Rightarrow> node \<Rightarrow> error + int" where
  "total_variables X n =
     bind_err (variables_introduced X n) (\<lambda>v.
       bind_err (map_err (total_variables X) (child_nodes n)) (\<lambda>vs. Inr (v + sum_list vs)))"
  by pat_completeness auto
termination
  by (relation "measure (\<lambda>(X, n). size n)") (auto simp: size_child_nodes)

function total_relational_ops :: "node \<Rightarrow> int" where
  "total_relational_ops n =
     relation_ops_created n + sum_list (map total_relational_ops (child_nodes n))"
  by pat_completeness auto
termination
  by (relation "measure size") (auto simp: size_child_nodes)

function total_joins :: "node \<Rightarrow> int" where
  "total_joins n = (if joins n then 1 else 0) + sum_list (map total_joins (child_nodes n))"
  by pat_completeness auto
termination
  by (relation "measure size") (auto simp: size_child_nodes)

definition planning_complexity :: "typing \<Rightarrow> node \<Rightarrow> error + int" where
  "planning_complexity X n =
     bind_err (total_variables X n)
       (\<lambda>tv. Inr (tv * total_relational_ops n * (1 + total_joins n)))"

subsection \<open>Ordering safety\<close>


subsection \<open>Construction: the \<^verbatim>\<open>__post_init__\<close> checks\<close>

text \<open>
  \<^verbatim>\<open>CachedTableNode.hidden_columns\<close>, from the fields it reads. The generator reads
  \<^verbatim>\<open>self.schema\<close> once per referenced column, so not at all when there is none.
\<close>

definition hidden_columns :: "typing \<Rightarrow> node \<Rightarrow> row_ordering option \<Rightarrow> error + string list" where
  "hidden_columns X original_node ord =
     (case ord of
        None \<Rightarrow> Inr []
      | Some row_ord \<Rightarrow>
          (let cols = sorted_list_of_set (referenced_columns row_ord) in
           if cols = [] then Inr []
           else bind_err (schema X original_node)
                  (\<lambda>s. Inr (filter (\<lambda>col. col \<notin> set (names s)) cols))))"

text \<open>
  Constructing a dataclass stores the fields and runs \<^verbatim>\<open>__post_init__\<close>; \<open>Inr ()\<close> is a
  construction that succeeds, \<open>Inl e\<close> one that raises \<open>e\<close>. A class without
  \<^verbatim>\<open>__post_init__\<close> always succeeds.
\<close>

fun post_init :: "typing \<Rightarrow> node \<Rightarrow> error + unit" where
  "post_init X (ConcatNode children) =
     (if length children = 0 then Inl ValueError
      else bind_err (map_err (\<lambda>child. bind_err (schema X child) (\<lambda>s. Inr (dtypes s))) children)
             (\<lambda>child_schemas.
                if \<not> card (set child_schemas) = 1 then Inl ValueError else Inr ()))"
| "post_init X (ReadTableNode t) =
     (let physical_names = set (map name (physical_schema t)) in
      if \<not> set (names (columns t)) \<subseteq> physical_names then Inl ValueError
      else if order_col_is_sequential t \<and> length (total_order_cols t) \<noteq> 1 then Inl ValueError
      else Inr ())"
| "post_init X (CachedTableNode original_node p d t phys ord) =
     (let physical_names = set (map name phys) in
      bind_err (schema X original_node) (\<lambda>s.
        let logical_names = names s in
        if \<not> set logical_names \<subseteq> physical_names then Inl ValueError
        else bind_err (hidden_columns X original_node ord) (\<lambda>hidden.
               if \<not> set hidden \<subseteq> physical_names then Inl ValueError else Inr ())))"
| "post_init X (OrderByNode child by_exprs) =
     bind_err (schema X child) (\<lambda>s.
       let available_variables = names s in
       if \<exists>order_expr \<in> set by_exprs.
            \<exists>variable \<in> set (unbound_variables (scalar_expression order_expr)).
              variable \<notin> set available_variables
       then Inl ValueError else Inr ())"
| "post_init X (ProjectionNode child assignments) =
     bind_err (schema X child) (\<lambda>s.
       bind_err (map_err (\<lambda>(e, c). output_type X e (mapping s)) assignments)
         (\<lambda>checked. Inr ()))"
| "post_init X n = Inr ()"

text \<open>
  The nodes a dataclass holds in its fields: its children, and for a
  \<^verbatim>\<open>CachedTableNode\<close> the \<^verbatim>\<open>original_node\<close>, which is not a child. A tree exists in
  the program when every node of it was constructed without raising.
\<close>

fun held_nodes :: "node \<Rightarrow> node list" where
  "held_nodes (CachedTableNode original_node p d t phys ord) = [original_node]"
| "held_nodes n = child_nodes n"

lemma size_held_nodes: "c \<in> set (held_nodes n) \<Longrightarrow> size c < size n"
  by (cases n) (auto simp: less_Suc_eq_le dest: size_list_estimation')

function constructed :: "typing \<Rightarrow> node \<Rightarrow> bool" where
  "constructed X n = (list_all (constructed X) (held_nodes n) \<and> post_init X n = Inr ())"
  by pat_completeness auto
termination
  by (relation "measure (\<lambda>(X, n). size n)") (auto simp: size_held_nodes)

subsection \<open>Session resolution\<close>

text \<open>
  The \<^verbatim>\<open>session\<close> property: a field of \<^verbatim>\<open>ReadLocalNode\<close>, \<^verbatim>\<open>table_session\<close> for
  \<^verbatim>\<open>ReadTableNode\<close>, the original node's for \<^verbatim>\<open>CachedTableNode\<close>, and the loop of
  \<^verbatim>\<open>BigFrameNode.session\<close> over the children for every other class.
\<close>

definition resolve_sessions :: "session_id option list \<Rightarrow> error + session_id option" where
  "resolve_sessions child_sessions =
     (let sessions = concat (map (\<lambda>s. case s of None \<Rightarrow> [] | Some x \<Rightarrow> [x]) child_sessions);
          unique_sessions = card (set sessions)
      in if unique_sessions > 1 then Inl ValueError
         else if unique_sessions = 1 then Inr (Some (sessions ! 0))
         else Inr None)"

function (sequential) session :: "node \<Rightarrow> error + session_id option" where
  "session (ReadLocalNode feather_bytes data_schema s) = Inr s"
| "session (ReadTableNode t) = Inr (Some (table_session t))"
| "session (CachedTableNode original_node p d t phys ord) = session original_node"
| "session n = bind_err (map_err session (child_nodes n)) resolve_sessions"
  by pat_completeness auto
termination
  by (relation "measure size") (auto simp: less_Suc_eq_le dest: size_list_estimation')

subsection \<open>Structural hashing\<close>








section \<open>The caching executor of \<^verbatim>\<open>executor.py\<close>\<close>

definition QUERY_COMPLEXITY_LIMIT :: int where
  "QUERY_COMPLEXITY_LIMIT = 10000000"

definition MAX_SUBTREE_FACTORINGS :: nat where
  "MAX_SUBTREE_FACTORINGS = 5"

definition MAX_CLUSTER_COLUMNS :: nat where
  "MAX_CLUSTER_COLUMNS = 4"

text \<open>
  Modelled from the spec: \<^verbatim>\<open>nodes.SelectionNode\<close>, which \<^verbatim>\<open>generate_head_plan\<close>
  constructs, is not declared in \<^verbatim>\<open>nodes.py\<close>. It is the step that "drops the offset
  column": a child and the (input id, output id) pairs it keeps, each output column taking
  the type of its input column.
\<close>

datatype selection = SelectionNode node "(string \<times> string) list"

fun selection_schema :: "typing \<Rightarrow> selection \<Rightarrow> error + ArraySchema" where
  "selection_schema X (SelectionNode child input_output_pairs) =
     bind_err (schema X child) (\<lambda>s.
       map_err (\<lambda>(input, output). bind_err (get_type s input) (\<lambda>t. Inr (output, t)))
         input_output_pairs)"

text \<open>
  The SQL compiler is a collaborator: a compiled statement is known by the call that
  produced it. A job is a statement sent to the warehouse client with the destination
  table of its configuration, if any.
\<close>

datatype sql =
    compile_ordered node "(string \<times> string) list"
  | compile_unordered node "(string \<times> string) list"
  | compile_peek node int
  | compile_raw node
  | compile_ordered_selection selection

record bq_table =
  tbl_project :: string
  tbl_dataset_id :: string
  tbl_table_id :: string
  tbl_schema :: "SchemaField list"

type_synonym job = "sql \<times> bq_table option"

datatype remote_result = Rows | ResourcesExceeded | OtherBadRequest

text \<open>
  What the executor calls outside the two source units, as parameters:
  \<^verbatim>\<open>tree_properties\<close> (\<open>replace_nodes\<close>, \<open>row_count\<close>, \<open>can_fast_head\<close>,
  \<open>can_fast_peek\<close>, \<open>select_cache_target\<close> with the heuristic it is given), the
  planner's \<open>session_aware_cache_plan\<close> with the session's other plans, the node
  property \<open>explicitly_ordered\<close>, \<^verbatim>\<open>ArrayValue.promote_offsets\<close> (the column id it
  picks), \<^verbatim>\<open>guid.generate_guid\<close>, the compiler's \<^verbatim>\<open>compile_raw\<close> (its schema and
  ordering), \<^verbatim>\<open>bq_io.select_cluster_cols\<close>, \<^verbatim>\<open>ArraySchema.to_bigquery\<close>, the
  storage manager with \<^verbatim>\<open>bqclient.get_table\<close>, the outcome of a submitted job, the
  option \<^verbatim>\<open>enable_multi_query_execution\<close>, and the typing functions of the nodes.
\<close>

record collaborators =
  types :: typing
  replace_nodes :: "node \<Rightarrow> (node \<times> node) list \<Rightarrow> node"
  row_count :: "node \<Rightarrow> int option"
  can_fast_head :: "node \<Rightarrow> bool"
  can_fast_peek :: "node \<Rightarrow> bool"
  select_cache_target :: "node \<Rightarrow> int \<Rightarrow> int \<Rightarrow> (node \<times> node) list \<Rightarrow> node option"
  session_aware_cache_plan :: "node \<Rightarrow> node \<times> string list"
  explicitly_ordered :: "node \<Rightarrow> bool"
  promote_offsets_id :: "node \<Rightarrow> string"
  generate_guid :: "string \<Rightarrow> string"
  compile_raw_schema :: "node \<Rightarrow> SchemaField list"
  compile_raw_ordering :: "node \<Rightarrow> row_ordering option"
  select_cluster_cols :: "SchemaField list \<Rightarrow> string list \<Rightarrow> string list"
  to_bigquery :: "ArraySchema \<Rightarrow> SchemaField list"
  create_temp_table :: "SchemaField list \<Rightarrow> string list \<Rightarrow> bq_table"
  submit :: "job \<Rightarrow> remote_result"
  enable_multi_query_execution :: bool

text \<open>
  The executor's state: the mode, the cache (a dictionary from original subtree to its
  replacement, in insertion order), and what it has done to its collaborators so far:
  the jobs submitted, oldest first, and the number of warnings issued.
\<close>

record executor =
  strictly_ordered :: bool
  cached_executions :: "(node \<times> node) list"
  jobs :: "job list"
  warnings :: nat

type_synonym 'a outcome = "(error + 'a) \<times> executor"

definition get_optimized_plan :: "collaborators \<Rightarrow> executor \<Rightarrow> node \<Rightarrow> node" where
  "get_optimized_plan E ex n = replace_nodes E n (cached_executions ex)"

definition local_get_row_count :: "collaborators \<Rightarrow> executor \<Rightarrow> node \<Rightarrow> int option" where
  "local_get_row_count E ex n = row_count E (get_optimized_plan E ex n)"

text \<open>
  \<^verbatim>\<open>_run_execute_query\<close>: the job is submitted; a "Resources exceeded" rejection becomes
  a \<^verbatim>\<open>QueryComplexityError\<close>, any other rejection is raised as it is.
\<close>

definition run_execute_query :: "collaborators \<Rightarrow> executor \<Rightarrow> job \<Rightarrow> job outcome" where
  "run_execute_query E ex j =
     (let ex' = ex\<lparr>jobs := jobs ex @ [j]\<rparr> in
      case submit E j of
        Rows \<Rightarrow> (Inr j, ex')
      | ResourcesExceeded \<Rightarrow> (Inl QueryComplexityError, ex')
      | OtherBadRequest \<Rightarrow> (Inl BadRequest, ex'))"

definition sql_as_cached_temp_table ::
  "collaborators \<Rightarrow> executor \<Rightarrow> sql \<Rightarrow> SchemaField list \<Rightarrow> string list \<Rightarrow> bq_table outcome" where
  "sql_as_cached_temp_table E ex q sch cluster_cols =
     (if \<not> length cluster_cols \<le> MAX_CLUSTER_COLUMNS then (Inl AssertionError, ex)
      else let temp_table = create_temp_table E sch cluster_cols in
        case run_execute_query E ex (q, Some temp_table) of
          (Inl e, ex') \<Rightarrow> (Inl e, ex')
        | (Inr query_job, ex') \<Rightarrow> (Inr temp_table, ex'))"

text \<open>
  \<^verbatim>\<open>ArrayValue.as_cached(cache_table, ordering).node\<close>: the construction of a
  \<^verbatim>\<open>CachedTableNode\<close> over the original node, which runs its \<^verbatim>\<open>__post_init__\<close>.
\<close>

definition as_cached ::
  "collaborators \<Rightarrow> node \<Rightarrow> bq_table \<Rightarrow> row_ordering option \<Rightarrow> error + node" where
  "as_cached E n cache_table ord =
     (let cached = CachedTableNode n (tbl_project cache_table) (tbl_dataset_id cache_table)
                     (tbl_table_id cache_table) (tbl_schema cache_table) ord
      in bind_err (post_init (types E) cached) (\<lambda>u. Inr cached))"

definition register_cached :: "executor \<Rightarrow> node \<Rightarrow> node \<Rightarrow> executor" where
  "register_cached ex n cached_replacement =
     ex\<lparr>cached_executions := AList.update n cached_replacement (cached_executions ex)\<rparr>"

definition cache_with_cluster_cols ::
  "collaborators \<Rightarrow> executor \<Rightarrow> node \<Rightarrow> string list \<Rightarrow> unit outcome" where
  "cache_with_cluster_cols E ex n cluster_cols =
     (let plan = get_optimized_plan E ex n;
          sch = compile_raw_schema E plan;
          ordering_info = compile_raw_ordering E plan
      in case sql_as_cached_temp_table E ex (compile_raw plan) sch
                (select_cluster_cols E sch cluster_cols) of
           (Inl e, ex') \<Rightarrow> (Inl e, ex')
         | (Inr tmp_table, ex') \<Rightarrow>
             (case as_cached E n tmp_table ordering_info of
                Inl e \<Rightarrow> (Inl e, ex')
              | Inr cached_replacement \<Rightarrow> (Inr (), register_cached ex' n cached_replacement)))"

definition from_offset_col :: "string \<Rightarrow> row_ordering" where
  "from_offset_col c =
     TotalOrdering [OrderingExpression (UnboundVariableExpression c) True True] [c]"

definition cache_with_offsets :: "collaborators \<Rightarrow> executor \<Rightarrow> node \<Rightarrow> unit outcome" where
  "cache_with_offsets E ex n =
     (if \<not> strictly_ordered ex then (Inl ValueError, ex)
      else let offset_column = promote_offsets_id E n;
               w_offsets = PromoteOffsetsNode n offset_column;
               q = compile_unordered (get_optimized_plan E ex w_offsets) []
        in case schema (types E) w_offsets of
             Inl e \<Rightarrow> (Inl e, ex)
           | Inr s \<Rightarrow>
               (case sql_as_cached_temp_table E ex q (to_bigquery E s) [offset_column] of
                  (Inl e, ex') \<Rightarrow> (Inl e, ex')
                | (Inr tmp_table, ex') \<Rightarrow>
                    (case as_cached E n tmp_table (Some (from_offset_col offset_column)) of
                       Inl e \<Rightarrow> (Inl e, ex')
                     | Inr cached_replacement \<Rightarrow>
                         (Inr (), register_cached ex' n cached_replacement))))"


text \<open>
  \<^verbatim>\<open>_cache_most_complex_subtree\<close>. The bounds are \<^verbatim>\<open>QUERY_COMPLEXITY_LIMIT / 500\<close> and
  \<^verbatim>\<open>QUERY_COMPLEXITY_LIMIT\<close>; the constant is the float \<^verbatim>\<open>1e7\<close>, an integer value, and
  so is its quotient by 500.
\<close>

definition cache_most_complex_subtree :: "collaborators \<Rightarrow> executor \<Rightarrow> node \<Rightarrow> bool outcome" where
  "cache_most_complex_subtree E ex n =
     (case select_cache_target E n (QUERY_COMPLEXITY_LIMIT div 500) QUERY_COMPLEXITY_LIMIT
             (cached_executions ex) of
        None \<Rightarrow> (Inr False, ex)
      | Some selection \<Rightarrow>
          (case cache_with_cluster_cols E ex selection [] of
             (Inl e, ex') \<Rightarrow> (Inl e, ex')
           | (Inr u, ex') \<Rightarrow> (Inr True, ex')))"

text \<open>
  \<^verbatim>\<open>_simplify_with_caching\<close>: the loop \<^verbatim>\<open>for _ in range(MAX_SUBTREE_FACTORINGS)\<close>, by
  recursion on the iterations that remain.
\<close>

fun simplify_loop :: "collaborators \<Rightarrow> nat \<Rightarrow> executor \<Rightarrow> node \<Rightarrow> unit outcome" where
  "simplify_loop E 0 ex n = (Inr (), ex)"
| "simplify_loop E (Suc k) ex n =
     (let node_with_cache = get_optimized_plan E ex n in
      case planning_complexity (types E) node_with_cache of
        Inl e \<Rightarrow> (Inl e, ex)
      | Inr c \<Rightarrow>
          if c < QUERY_COMPLEXITY_LIMIT then (Inr (), ex)
          else (case cache_most_complex_subtree E ex n of
                  (Inl e, ex') \<Rightarrow> (Inl e, ex')
                | (Inr did_cache, ex') \<Rightarrow>
                    if \<not> did_cache then (Inr (), ex') else simplify_loop E k ex' n))"

definition simplify_with_caching :: "collaborators \<Rightarrow> executor \<Rightarrow> node \<Rightarrow> unit outcome" where
  "simplify_with_caching E ex n = simplify_loop E MAX_SUBTREE_FACTORINGS ex n"

text \<open>
  \<^verbatim>\<open>to_sql\<close>. The test \<^verbatim>\<open>if offset_column:\<close> is false for \<^verbatim>\<open>None\<close> and for the empty
  string.
\<close>

definition to_sql ::
  "collaborators \<Rightarrow> executor \<Rightarrow> node \<Rightarrow> string option \<Rightarrow> (string \<times> string) list \<Rightarrow> bool \<Rightarrow> bool \<Rightarrow> sql" where
  "to_sql E ex n offset_column col_id_overrides ordered enable_cache =
     (let (n1, overrides) =
            (case offset_column of
               None \<Rightarrow> (n, col_id_overrides)
             | Some c \<Rightarrow>
                 if c = [] then (n, col_id_overrides)
                 else (PromoteOffsetsNode n (promote_offsets_id E n),
                       AList.update (promote_offsets_id E n) c col_id_overrides));
          plan = (if enable_cache then get_optimized_plan E ex n1 else n1)
      in if ordered then compile_ordered plan overrides else compile_unordered plan overrides)"

definition execute ::
  "collaborators \<Rightarrow> executor \<Rightarrow> node \<Rightarrow> bool \<Rightarrow> (string \<times> string) list \<Rightarrow> bool \<Rightarrow> job outcome" where
  "execute E ex n ordered col_id_overrides use_explicit_destination =
     (case (if enable_multi_query_execution E then simplify_with_caching E ex n
            else (Inr (), ex)) of
        (Inl e, ex') \<Rightarrow> (Inl e, ex')
      | (Inr u, ex') \<Rightarrow>
          (let q = to_sql E ex' n None col_id_overrides ordered True in
           if use_explicit_destination then
             (case schema (types E) n of
                Inl e \<Rightarrow> (Inl e, ex')
              | Inr s \<Rightarrow>
                  run_execute_query E ex' (q, Some (create_temp_table E (to_bigquery E s) [])))
           else run_execute_query E ex' (q, None)))"

definition peek :: "collaborators \<Rightarrow> executor \<Rightarrow> node \<Rightarrow> int \<Rightarrow> job outcome" where
  "peek E ex n n_rows =
     (let plan = get_optimized_plan E ex n;
          ex' = (if \<not> can_fast_peek E plan then ex\<lparr>warnings := warnings ex + 1\<rparr> else ex)
      in run_execute_query E ex' (compile_peek plan n_rows, None))"

definition generate_head_plan :: "collaborators \<Rightarrow> node \<Rightarrow> int \<Rightarrow> error + selection" where
  "generate_head_plan E n k =
     (let offsets_id = generate_guid E ''offsets_'';
          plan_w_offsets = PromoteOffsetsNode n offsets_id;
          predicate = OpExpression ''lt''
                        [UnboundVariableExpression offsets_id, ScalarConstantExpression k];
          plan_w_head = FilterNode plan_w_offsets predicate
      in bind_err (schema (types E) n)
           (\<lambda>s. Inr (SelectionNode plan_w_head (map (\<lambda>i. (i, i)) (names s)))))"

text \<open>The last three statements of \<^verbatim>\<open>head\<close>: the head plan is built, compiled and run.\<close>

definition run_head_plan :: "collaborators \<Rightarrow> executor \<Rightarrow> node \<Rightarrow> int \<Rightarrow> job outcome" where
  "run_head_plan E ex plan n_rows =
     (case generate_head_plan E plan n_rows of
        Inl e \<Rightarrow> (Inl e, ex)
      | Inr head_plan \<Rightarrow> run_execute_query E ex (compile_ordered_selection head_plan, None))"

definition head :: "collaborators \<Rightarrow> executor \<Rightarrow> node \<Rightarrow> int \<Rightarrow> job outcome" where
  "head E ex n n_rows =
     (let maybe_row_count = local_get_row_count E ex n in
      if maybe_row_count \<noteq> None \<and> the maybe_row_count \<le> n_rows
      then execute E ex n True [] False
      else if \<not> strictly_ordered ex \<and> \<not> explicitly_ordered E n then peek E ex n n_rows
      else let plan = get_optimized_plan E ex n in
        if \<not> can_fast_head E plan then
          (case cache_with_offsets E ex n of
             (Inl e, ex') \<Rightarrow> (Inl e, ex')
           | (Inr u, ex') \<Rightarrow>
               (let plan' = get_optimized_plan E ex' n in
                if \<not> can_fast_head E plan' then (Inl AssertionError, ex')
                else run_head_plan E ex' plan' n_rows))
        else run_head_plan E ex plan n_rows)"

declare total_variables.simps [simp del]
declare total_relational_ops.simps [simp del]
declare total_joins.simps [simp del]
declare constructed.simps [simp del]

subsection \<open>Session resolution, in the words of the specification\<close>

text \<open>
  The owning sessions collected transitively from the descendants of a node (for a
  \<^verbatim>\<open>CachedTableNode\<close>, from its original node), and the resolution the specification
  describes: none for zero distinct sessions, that session for one, fatal for more.
\<close>

fun descendant_sessions :: "node \<Rightarrow> session_id list" where
  "descendant_sessions (ReadLocalNode feather_bytes data_schema s) =
     (case s of None \<Rightarrow> [] | Some x \<Rightarrow> [x])"
| "descendant_sessions (ReadTableNode t) = [table_session t]"
| "descendant_sessions (CachedTableNode original_node p d t phys ord) =
     descendant_sessions original_node"
| "descendant_sessions (JoinNode left_child right_child j) =
     descendant_sessions left_child @ descendant_sessions right_child"
| "descendant_sessions (ConcatNode children) = concat (map descendant_sessions children)"
| "descendant_sessions (PromoteOffsetsNode child col_id) = descendant_sessions child"
| "descendant_sessions (FilterNode child predicate) = descendant_sessions child"
| "descendant_sessions (OrderByNode child by_exprs) = descendant_sessions child"
| "descendant_sessions (ReversedNode child reversed) = descendant_sessions child"
| "descendant_sessions (ProjectionNode child assignments) = descendant_sessions child"
| "descendant_sessions (RowCountNode child) = descendant_sessions child"
| "descendant_sessions (AggregateNode child aggregations by_column_ids dropna) =
     descendant_sessions child"
| "descendant_sessions (WindowOpNode child w) = descendant_sessions child"
| "descendant_sessions (ReprojectOpNode child) = descendant_sessions child"
| "descendant_sessions (RandomSampleNode child fraction) = descendant_sessions child"
| "descendant_sessions (ExplodeNode child column_ids) = descendant_sessions child"

definition resolve_distinct :: "session_id list \<Rightarrow> error + session_id option" where
  "resolve_distinct found =
     (if card (set found) > 1 then Inl ValueError
      else if card (set found) = 1 then Inr (Some (hd found))
      else Inr None)"

subsection \<open>The variant sequence and the parameters of a tree\<close>




lemma list_all2_fundef_cong [fundef_cong]:
  "xs = xs' \<Longrightarrow> ys = ys' \<Longrightarrow> (\<And>x y. x \<in> set xs' \<Longrightarrow> y \<in> set ys' \<Longrightarrow> R x y = R' x y)
   \<Longrightarrow> list_all2 R xs ys = list_all2 R' xs' ys'"
  by (auto simp: list_all2_conv_all_nth)




subsection \<open>Where two hash computations collide\<close>











section \<open>Example values\<close>

definition example_typing :: typing where
  "example_typing =
     \<lparr>output_type = (\<lambda>e m. Inr None), agg_output_type = (\<lambda>a m. Inr None),
      window_output_type = (\<lambda>w t. Inr t), array_value_type = (\<lambda>t. Inr t)\<rparr>"

definition example_table :: ReadTable where
  "example_table =
     \<lparr>project_id = ''p'', dataset_id = ''d'', table_id = ''t'',
      physical_schema = [\<lparr>name = ''k'', field_type = ''INTEGER''\<rparr>,
                         \<lparr>name = ''v'', field_type = ''STRING''\<rparr>],
      columns = [(''k'', ''Int64''), (''v'', ''string'')],
      table_session = 1, total_order_cols = [], order_col_is_sequential = False,
      at_time = None, sql_predicate = None\<rparr>"

definition example_local :: node where
  "example_local = ReadLocalNode [] [(''a'', ''Int64''), (''b'', ''string'')] None"

definition bad_table :: ReadTable where
  "bad_table = example_table\<lparr>columns := [(''zz'', ''Int64'')], order_col_is_sequential := True\<rparr>"

definition other_table :: ReadTable where
  "other_table = example_table\<lparr>table_session := 2\<rparr>"

definition example_join :: JoinDefinition where
  "example_join = \<lparr>conditions = [], mappings = [], join_type = ''inner''\<rparr>"




definition example_collaborators :: collaborators where
  "example_collaborators =
     \<lparr>types = example_typing,
      replace_nodes = (\<lambda>n cache. case map_of cache n of None \<Rightarrow> n | Some r \<Rightarrow> r),
      row_count = (\<lambda>n. None),
      can_fast_head =
        (\<lambda>n. case n of CachedTableNode original_node p d t phys ord \<Rightarrow> is_TotalOrdering ord
              | _ \<Rightarrow> False),
      can_fast_peek = (\<lambda>n. True),
      select_cache_target = (\<lambda>n lo hi cache. Some (ReadTableNode example_table)),
      session_aware_cache_plan = (\<lambda>n. (n, [])),
      explicitly_ordered = (\<lambda>n. case n of OrderByNode child by_exprs \<Rightarrow> True | _ \<Rightarrow> False),
      promote_offsets_id = (\<lambda>n. ''bigframes_offsets_1''),
      generate_guid = (\<lambda>prefix. prefix @ ''1''),
      compile_raw_schema = (\<lambda>n. physical_schema example_table),
      compile_raw_ordering = (\<lambda>n. None),
      select_cluster_cols = (\<lambda>sch cols. cols),
      to_bigquery = (\<lambda>s. map (\<lambda>(c, t). \<lparr>name = c, field_type = t\<rparr>) s),
      create_temp_table =
        (\<lambda>sch cols. \<lparr>tbl_project = ''p'', tbl_dataset_id = ''tmp'', tbl_table_id = ''cache'',
                       tbl_schema = sch\<rparr>),
      submit = (\<lambda>j. Rows),
      enable_multi_query_execution = True\<rparr>"

definition new_executor :: "bool \<Rightarrow> executor" where
  "new_executor strict =
     \<lparr>strictly_ordered = strict, cached_executions = [], jobs = [], warnings = 0\<rparr>"

definition sorted_plan :: node where
  "sorted_plan =
     OrderByNode (ReadTableNode example_table)
       [OrderingExpression (UnboundVariableExpression ''k'') True True]"

definition wide_columns :: "string list" where
  "wide_columns = replicate 4000000 ''v''"

definition wide_plan :: node where
  "wide_plan = ExplodeNode (ReadTableNode example_table) wide_columns"

definition leaf_cache :: node where
  "leaf_cache =
     CachedTableNode (ReadTableNode example_table) ''p'' ''tmp'' ''cache''
       (physical_schema example_table) None"

definition leaf_table :: bq_table where
  "leaf_table =
     \<lparr>tbl_project = ''p'', tbl_dataset_id = ''tmp'', tbl_table_id = ''cache'',
      tbl_schema = physical_schema example_table\<rparr>"

definition cached_state :: "job list \<Rightarrow> executor" where
  "cached_state js =
     \<lparr>strictly_ordered = True,
      cached_executions = [(ReadTableNode example_table, leaf_cache)],
      jobs = js, warnings = 0\<rparr>"

definition sorted_cache :: node where
  "sorted_cache =
     CachedTableNode sorted_plan ''p'' ''tmp'' ''cache''
       [\<lparr>name = ''bigframes_offsets_1'', field_type = ''Int64''\<rparr>,
        \<lparr>name = ''k'', field_type = ''Int64''\<rparr>, \<lparr>name = ''v'', field_type = ''string''\<rparr>]
       (Some (from_offset_col ''bigframes_offsets_1''))"

definition no_target :: collaborators where
  "no_target = example_collaborators\<lparr>select_cache_target := (\<lambda>n lo hi cache. None)\<rparr>"

section \<open>Auxiliary facts\<close>

lemma bind_err_Inr_iff: "bind_err m f = Inr y \<longleftrightarrow> (\<exists>x. m = Inr x \<and> f x = Inr y)"
  by (cases m) auto

lemma map_err_Inr_iff:
  "map_err f xs = Inr ys \<longleftrightarrow> length ys = length xs \<and> (\<forall>i < length xs. f (xs ! i) = Inr (ys ! i))"
proof (induction xs arbitrary: ys)
  case Nil
  then show ?case by auto
next
  case (Cons x xs)
  show ?case
  proof (cases "f x")
    case (Inl e)
    then show ?thesis by (auto intro: exI[of _ 0])
  next
    case (Inr y)
    note fx = this
    show ?thesis
    proof (cases "map_err f xs")
      case (Inl e)
      with Cons.IH[of "tl ys"] fx show ?thesis
        by (cases ys) auto
    next
      case (Inr zs)
      with Cons.IH fx show ?thesis
        by (cases ys) (auto simp: nth_Cons split: nat.splits)
    qed
  qed
qed


lemma map_err_member:
  "map_err f xs = Inr ys \<Longrightarrow> x \<in> set xs \<Longrightarrow> \<exists>y \<in> set ys. f x = Inr y"
  by (metis map_err_Inr_iff in_set_conv_nth)

lemma map_err_image:
  "map_err f xs = Inr ys \<Longrightarrow> y \<in> set ys \<Longrightarrow> \<exists>x \<in> set xs. f x = Inr y"
  by (metis map_err_Inr_iff in_set_conv_nth)

lemma map_err_comp_Inr:
  "map_err f xs = Inr ys \<Longrightarrow> map_err (\<lambda>x. bind_err (f x) (\<lambda>y. Inr (g y))) xs = Inr (map g ys)"
proof (induction xs arbitrary: ys)
  case Nil
  then show ?case by simp
next
  case (Cons x xs)
  then show ?case by (auto simp: bind_err_Inr_iff)
qed

lemma sum_list_nonneg_member:
  "(\<And>y. y \<in> set ys \<Longrightarrow> (0::int) \<le> y) \<Longrightarrow> x \<in> set ys \<Longrightarrow> x \<le> sum_list ys"
proof (induction ys)
  case Nil
  then show ?case by simp
next
  case (Cons y ys)
  have s: "0 \<le> sum_list ys" using Cons.prems(1) by (simp add: sum_list_nonneg)
  have y: "0 \<le> y" using Cons.prems(1) by simp
  show ?case
  proof (cases "x = y")
    case True
    with s show ?thesis by simp
  next
    case False
    with Cons.prems(2) have "x \<in> set ys" by simp
    then have "x \<le> sum_list ys" using Cons.IH Cons.prems(1) by simp
    with y show ?thesis by simp
  qed
qed

lemma card_set_two: "a \<in> A \<Longrightarrow> b \<in> A \<Longrightarrow> a \<noteq> b \<Longrightarrow> finite A \<Longrightarrow> card A \<noteq> 1"
  by (auto simp: card_1_singleton_iff)

subsection \<open>The metrics are non-negative and grow towards the root\<close>

lemma variables_introduced_nonneg: "variables_introduced X n = Inr v \<Longrightarrow> 0 \<le> v"
  by (cases n) (auto simp: bind_err_Inr_iff OVERHEAD_VARIABLES_def simp del: schema.simps)

lemma relation_ops_created_nonneg: "0 \<le> relation_ops_created n"
  by (cases n) auto

lemma total_variables_nonneg: "total_variables X n = Inr v \<Longrightarrow> 0 \<le> v"
proof (induction X n arbitrary: v rule: total_variables.induct)
  case (1 X n)
  from "1.prems" obtain vi vs where vi: "variables_introduced X n = Inr vi"
    and vs: "map_err (total_variables X) (child_nodes n) = Inr vs" and v: "v = vi + sum_list vs"
    by (subst (asm) total_variables.simps) (auto simp: bind_err_Inr_iff)
  have "0 \<le> y" if "y \<in> set vs" for y
    using map_err_image[OF vs that] "1.IH"[OF vi] by blast
  then have "0 \<le> sum_list vs" by (simp add: sum_list_nonneg)
  with variables_introduced_nonneg[OF vi] v show ?case by simp
qed

lemma total_relational_ops_nonneg: "0 \<le> total_relational_ops n"
proof (induction n rule: total_relational_ops.induct)
  case (1 n)
  have "0 \<le> sum_list (map total_relational_ops (child_nodes n))"
    using 1 by (intro sum_list_nonneg) auto
  with relation_ops_created_nonneg[of n] show ?case
    by (subst total_relational_ops.simps) simp
qed

lemma total_joins_nonneg: "0 \<le> total_joins n"
proof (induction n rule: total_joins.induct)
  case (1 n)
  have "0 \<le> sum_list (map total_joins (child_nodes n))"
    using 1 by (intro sum_list_nonneg) auto
  then show ?case
    by (subst total_joins.simps) simp
qed

lemma total_variables_child:
  assumes "c \<in> set (child_nodes w)" "total_variables X c = Inr a" "total_variables X w = Inr b"
  shows "a \<le> b"
proof -
  from assms(3) obtain vi vs where vi: "variables_introduced X w = Inr vi"
    and vs: "map_err (total_variables X) (child_nodes w) = Inr vs" and b: "b = vi + sum_list vs"
    by (subst (asm) total_variables.simps) (auto simp: bind_err_Inr_iff)
  have nn: "0 \<le> y" if "y \<in> set vs" for y
    using map_err_image[OF vs that] total_variables_nonneg by blast
  from map_err_member[OF vs assms(1)] assms(2) have "a \<in> set vs" by auto
  then have "a \<le> sum_list vs" using nn by (intro sum_list_nonneg_member) auto
  with variables_introduced_nonneg[OF vi] b show ?thesis by simp
qed

lemma total_relational_ops_child:
  assumes "c \<in> set (child_nodes w)"
  shows "total_relational_ops c \<le> total_relational_ops w"
proof -
  have "total_relational_ops c \<le> sum_list (map total_relational_ops (child_nodes w))"
    using assms by (intro sum_list_nonneg_member) (auto simp: total_relational_ops_nonneg)
  with relation_ops_created_nonneg[of w] show ?thesis
    by (subst (2) total_relational_ops.simps) simp
qed

lemma total_joins_child:
  assumes "c \<in> set (child_nodes w)"
  shows "total_joins c \<le> total_joins w"
proof -
  have "total_joins c \<le> sum_list (map total_joins (child_nodes w))"
    using assms by (intro sum_list_nonneg_member) (auto simp: total_joins_nonneg)
  then show ?thesis
    by (subst (2) total_joins.simps) simp
qed

subsection \<open>A constructed node has a schema where its metrics read one\<close>

lemma post_init_Concat_schema:
  assumes "post_init X (ConcatNode children) = Inr ()"
  shows "\<exists>c cs s. children = c # cs \<and> schema X c = Inr s"
proof (cases children)
  case Nil
  with assms show ?thesis by simp
next
  case (Cons c cs)
  with assms obtain dts
    where "map_err (\<lambda>child. bind_err (schema X child) (\<lambda>s. Inr (dtypes s))) (c # cs) = Inr dts"
    by (auto simp: bind_err_Inr_iff simp del: map_err.simps)
  then obtain s where "schema X c = Inr s"
    by (auto simp: bind_err_Inr_iff)
  with Cons show ?thesis by blast
qed





lemma concat_items_length: "length (concat_items ts) = length ts"
  by (simp add: concat_items_def)

lemma concat_items_nth:
  "i < length ts \<Longrightarrow> concat_items ts ! i = (''column_'' @ str_nat i, ts ! i)"
  by (simp add: concat_items_def nth_enumerate_eq del: str_nat.simps)

lemma str_nat_0: "str_nat 0 = ''0''"
  by code_simp

lemma str_nat_1: "str_nat 1 = ''1''"
  by code_simp

subsection \<open>Session resolution follows the sessions of the descendants\<close>

lemma map_err_first_error:
  assumes "\<And>x. x \<in> set xs \<Longrightarrow> f x = Inl e \<or> (\<exists>y. f x = Inr y)"
    and "\<exists>x \<in> set xs. f x = Inl e"
  shows "map_err f xs = Inl e"
  using assms
proof (induction xs)
  case Nil
  then show ?case by simp
next
  case (Cons x xs)
  show ?case
  proof (cases "f x")
    case (Inl e')
    with Cons.prems(1)[of x] show ?thesis by simp
  next
    case (Inr y)
    with Cons.prems(2) have "\<exists>x \<in> set xs. f x = Inl e" by auto
    with Cons.IH Cons.prems(1) have "map_err f xs = Inl e" by simp
    with Inr show ?thesis by simp
  qed
qed

lemma map_err_map: "(\<And>x. x \<in> set xs \<Longrightarrow> f x = Inr (g x)) \<Longrightarrow> map_err f xs = Inr (map g xs)"
  by (induction xs) auto

lemma card_le_one_cases:
  assumes "\<not> card (set xs) > 1"
  shows "xs = [] \<or> set xs = {hd xs}"
proof (cases xs)
  case Nil
  then show ?thesis by simp
next
  case (Cons x ys)
  then have "card (set xs) = 1" using assms
    by (metis One_nat_def Suc_lessI card_gt_0_iff List.finite_set empty_iff list.set_intros(1))
  then obtain y where "set xs = {y}" by (auto simp: card_1_singleton_iff)
  with Cons show ?thesis by auto
qed

lemma resolve_children:
  assumes IH: "\<And>c. c \<in> set cs \<Longrightarrow> session c = resolve_distinct (descendant_sessions c)"
  shows "bind_err (map_err session cs) resolve_sessions
           = resolve_distinct (concat (map descendant_sessions cs))"
proof (cases "\<exists>c \<in> set cs. card (set (descendant_sessions c)) > 1")
  case True
  then obtain c where c: "c \<in> set cs" and big: "card (set (descendant_sessions c)) > 1" by blast
  have "map_err session cs = Inl ValueError"
  proof (rule map_err_first_error)
    fix x assume "x \<in> set cs"
    then show "session x = Inl ValueError \<or> (\<exists>y. session x = Inr y)"
      using IH by (auto simp: resolve_distinct_def)
  next
    have "session c = Inl ValueError"
      using IH[OF c] big by (simp add: resolve_distinct_def)
    with c show "\<exists>x \<in> set cs. session x = Inl ValueError" by blast
  qed
  moreover have "set (descendant_sessions c) \<subseteq> set (concat (map descendant_sessions cs))"
    using c by auto
  then have "card (set (descendant_sessions c)) \<le> card (set (concat (map descendant_sessions cs)))"
    by (intro card_mono) auto
  with big have "card (set (concat (map descendant_sessions cs))) > 1" by simp
  ultimately show ?thesis by (simp add: resolve_distinct_def)
next
  case False
  define g where "g c = (if descendant_sessions c = [] then None else Some (hd (descendant_sessions c)))" for c
  have small: "descendant_sessions c = [] \<or> set (descendant_sessions c) = {hd (descendant_sessions c)}"
    if "c \<in> set cs" for c
    using False that card_le_one_cases[of "descendant_sessions c"] by auto
  have sg: "session c = Inr (g c)" if "c \<in> set cs" for c
    using IH[OF that] small[OF that] False that
    by (auto simp: resolve_distinct_def g_def)
  have m: "map_err session cs = Inr (map g cs)"
    using sg by (rule map_err_map)
  let ?sessions = "concat (map (\<lambda>s. case s of None \<Rightarrow> [] | Some x \<Rightarrow> [x]) (map g cs))"
  let ?found = "concat (map descendant_sessions cs)"
  have seteq: "set ?sessions = set ?found"
  proof -
    have "set (case g c of None \<Rightarrow> [] | Some x \<Rightarrow> [x]) = set (descendant_sessions c)"
      if "c \<in> set cs" for c
      using small[OF that] by (auto simp: g_def)
    then show ?thesis by auto
  qed
  show ?thesis
  proof (cases "card (set ?found) = 1")
    case True
    then obtain x where x: "set ?found = {x}" by (auto simp: card_1_singleton_iff)
    then have "?found \<noteq> []" by (metis insert_not_empty set_empty)
    then have "hd ?found \<in> set ?found" by (rule hd_in_set)
    with x have hf: "hd ?found = x" by simp
    from x seteq have sx: "set ?sessions = {x}" by simp
    then have "?sessions \<noteq> []" by (metis insert_not_empty set_empty)
    then have "?sessions ! 0 \<in> set ?sessions" by (metis nth_mem length_greater_0_conv)
    with sx have "?sessions ! 0 = x" by simp
    with hf m True seteq show ?thesis
      by (simp add: resolve_sessions_def resolve_distinct_def Let_def)
  next
    case False
    with m seteq show ?thesis
      by (simp add: resolve_sessions_def resolve_distinct_def Let_def)
  qed
qed

lemma session_leaf_or_loop:
  "(\<exists>b s x. n = ReadLocalNode b s x) \<or> (\<exists>t. n = ReadTableNode t) \<or>
   (\<exists>original_node p d t phys ord. n = CachedTableNode original_node p d t phys ord) \<or>
   (session n = bind_err (map_err session (child_nodes n)) resolve_sessions \<and>
    descendant_sessions n = concat (map descendant_sessions (child_nodes n)))"
  by (cases n) simp_all

lemma session_refines: "session n = resolve_distinct (descendant_sessions n)"
proof (induction n rule: measure_induct_rule[of size])
  case (less n)
  consider (local) b s x where "n = ReadLocalNode b s x"
    | (table) t where "n = ReadTableNode t"
    | (cached) original_node p d t phys ord where "n = CachedTableNode original_node p d t phys ord"
    | (loop) "session n = bind_err (map_err session (child_nodes n)) resolve_sessions"
        "descendant_sessions n = concat (map descendant_sessions (child_nodes n))"
    using session_leaf_or_loop[of n] by blast
  then show ?case
  proof cases
    case local
    then show ?thesis by (cases x) (simp_all add: resolve_distinct_def)
  next
    case table
    then show ?thesis by (simp add: resolve_distinct_def)
  next
    case cached
    with less.IH[of original_node] show ?thesis by simp
  next
    case loop
    have "session c = resolve_distinct (descendant_sessions c)" if "c \<in> set (child_nodes n)" for c
      using less.IH[OF size_child_nodes[OF that]] .
    from resolve_children[OF this] loop show ?thesis by simp
  qed
qed

subsection \<open>Variant sequence and parameters determine a tree and its hash computation\<close>




















subsection \<open>Jobs submitted by the factoring loop\<close>

lemma run_execute_query_jobs:
  "run_execute_query E ex j = (r, ex') \<Longrightarrow> jobs ex' = jobs ex @ [j]"
  by (auto simp: run_execute_query_def Let_def split: remote_result.splits)

lemma sql_as_cached_temp_table_jobs:
  "sql_as_cached_temp_table E ex q sch cc = (r, ex') \<Longrightarrow> length (jobs ex') \<le> length (jobs ex) + 1"
  by (auto simp: sql_as_cached_temp_table_def Let_def
      split: if_splits prod.splits sum.splits dest: run_execute_query_jobs)

lemma cache_with_cluster_cols_jobs:
  "cache_with_cluster_cols E ex n cc = (r, ex') \<Longrightarrow> length (jobs ex') \<le> length (jobs ex) + 1"
  by (auto simp: cache_with_cluster_cols_def Let_def register_cached_def
      split: if_splits prod.splits sum.splits dest: sql_as_cached_temp_table_jobs)

lemma cache_most_complex_subtree_jobs:
  "cache_most_complex_subtree E ex n = (r, ex') \<Longrightarrow> length (jobs ex') \<le> length (jobs ex) + 1"
  by (auto simp: cache_most_complex_subtree_def
      split: option.splits prod.splits sum.splits dest: cache_with_cluster_cols_jobs)

lemma simplify_loop_jobs:
  "simplify_loop E i ex n = (r, ex') \<Longrightarrow> length (jobs ex') \<le> length (jobs ex) + i"
proof (induction i arbitrary: ex)
  case 0
  then show ?case by simp
next
  case (Suc i)
  show ?case
  proof (cases "planning_complexity (types E) (get_optimized_plan E ex n)")
    case (Inl e)
    with Suc.prems show ?thesis by (simp add: Let_def)
  next
    case (Inr c)
    show ?thesis
    proof (cases "c < QUERY_COMPLEXITY_LIMIT")
      case True
      with Inr Suc.prems show ?thesis by (simp add: Let_def)
    next
      case False
      obtain r1 ex1 where c1: "cache_most_complex_subtree E ex n = (r1, ex1)"
        by (cases "cache_most_complex_subtree E ex n")
      have j1: "length (jobs ex1) \<le> length (jobs ex) + 1"
        using cache_most_complex_subtree_jobs[OF c1] .
      show ?thesis
      proof (cases r1)
        case (Inl e)
        with Inr False c1 Suc.prems j1 show ?thesis by (auto simp: Let_def)
      next
        case r: (Inr did_cache)
        show ?thesis
        proof (cases did_cache)
          case True
          with Inr False c1 r Suc.prems have "simplify_loop E i ex1 n = (r, ex')"
            by (simp add: Let_def)
          from Suc.IH[OF this] j1 show ?thesis by simp
        next
          case False
          with Inr \<open>\<not> c < QUERY_COMPLEXITY_LIMIT\<close> c1 r Suc.prems j1 show ?thesis
            by (auto simp: Let_def)
        qed
      qed
    qed
  qed
qed

subsection \<open>The head plan keeps the schema\<close>

lemma get_type_distinct:
  assumes "distinct (names s)" "(c, t) \<in> set s"
  shows "get_type (prepend s x) c = Inr t"
proof -
  have "distinct (map fst (rev s))" using assms(1) by (simp add: names_def rev_map[symmetric])
  moreover have "(c, t) \<in> set (rev s)" using assms(2) by simp
  ultimately have "map_of (rev s) c = Some t" by (rule map_of_is_SomeI)
  then show ?thesis
    by (simp add: get_type_def mapping_def prepend_def map_add_def)
qed

lemma selection_keeps_schema:
  assumes "schema X plan = Inr s" "distinct (names s)"
  shows "selection_schema X
           (SelectionNode (FilterNode (PromoteOffsetsNode plan offsets_id) predicate)
              (map (\<lambda>i. (i, i)) (names s))) = Inr s"
proof -
  have "map_err (\<lambda>(input, output).
            bind_err (get_type (prepend s (offsets_id, INT_DTYPE)) input) (\<lambda>t. Inr (output, t)))
          (map (\<lambda>i. (i, i)) (names s)) = Inr s"
    unfolding map_err_Inr_iff
  proof (intro conjI allI impI)
    show "length s = length (map (\<lambda>i. (i, i)) (names s))" by (simp add: names_def)
  next
    fix i assume "i < length (map (\<lambda>i. (i, i)) (names s))"
    then have i: "i < length s" by (simp add: names_def)
    then have "(fst (s ! i), snd (s ! i)) \<in> set s" by simp
    from get_type_distinct[OF assms(2) this]
    have "get_type (prepend s (offsets_id, INT_DTYPE)) (fst (s ! i)) = Inr (snd (s ! i))" .
    with i show "(case map (\<lambda>i. (i, i)) (names s) ! i of
             (input, output) \<Rightarrow>
               bind_err (get_type (prepend s (offsets_id, INT_DTYPE)) input)
                 (\<lambda>t. Inr (output, t))) = Inr (s ! i)"
      by (simp add: names_def)
  qed
  with assms(1) show ?thesis by simp
qed

subsection \<open>Runs of the executor on the example values\<close>

lemma length_wide_columns: "length wide_columns = 4000000"
  by (simp add: wide_columns_def)

lemma wide_plan_complexity:
  "planning_complexity example_typing wide_plan = Inr 24000024"
  by (simp add: wide_plan_def planning_complexity_def total_variables.simps
      total_relational_ops.simps total_joins.simps length_wide_columns example_table_def)

lemma step1:
  "cache_most_complex_subtree example_collaborators (new_executor True) wide_plan
   = (Inr True, \<lparr>strictly_ordered = True,
        cached_executions = [(ReadTableNode example_table, leaf_cache)],
        jobs = [(compile_raw (ReadTableNode example_table), Some leaf_table)], warnings = 0\<rparr>)"
  by (simp add: cache_most_complex_subtree_def cache_with_cluster_cols_def
      example_collaborators_def new_executor_def get_optimized_plan_def
      sql_as_cached_temp_table_def run_execute_query_def as_cached_def register_cached_def
      MAX_CLUSTER_COLUMNS_def leaf_cache_def leaf_table_def hidden_columns_def
      example_table_def names_def Let_def)

lemma step_next:
  "cache_most_complex_subtree example_collaborators (cached_state js) wide_plan
   = (Inr True, cached_state (js @ [(compile_raw leaf_cache, Some leaf_table)]))"
  by (simp add: cache_most_complex_subtree_def cache_with_cluster_cols_def
      example_collaborators_def cached_state_def get_optimized_plan_def
      sql_as_cached_temp_table_def run_execute_query_def as_cached_def register_cached_def
      MAX_CLUSTER_COLUMNS_def leaf_cache_def leaf_table_def hidden_columns_def
      example_table_def names_def Let_def)

lemma types_example: "types example_collaborators = example_typing"
  by (simp add: example_collaborators_def)

lemma plan_wide_new:
  "get_optimized_plan example_collaborators (new_executor True) wide_plan = wide_plan"
  by (simp add: get_optimized_plan_def example_collaborators_def new_executor_def)

lemma plan_wide_cached:
  "get_optimized_plan example_collaborators (cached_state js) wide_plan = wide_plan"
  by (simp add: get_optimized_plan_def example_collaborators_def cached_state_def wide_plan_def)

lemma iter_first:
  "simplify_loop example_collaborators (Suc i) (new_executor True) wide_plan
   = simplify_loop example_collaborators i
       (cached_state [(compile_raw (ReadTableNode example_table), Some leaf_table)]) wide_plan"
  using step1
  by (simp add: plan_wide_new types_example wide_plan_complexity QUERY_COMPLEXITY_LIMIT_def
      cached_state_def Let_def)

lemma iter_next:
  "simplify_loop example_collaborators (Suc i) (cached_state js) wide_plan
   = simplify_loop example_collaborators i
       (cached_state (js @ [(compile_raw leaf_cache, Some leaf_table)])) wide_plan"
  by (simp add: step_next plan_wide_cached types_example wide_plan_complexity
      QUERY_COMPLEXITY_LIMIT_def Let_def)

lemma simplify_wide:
  "simplify_with_caching example_collaborators (new_executor True) wide_plan
   = (Inr (), cached_state
        [(compile_raw (ReadTableNode example_table), Some leaf_table),
         (compile_raw leaf_cache, Some leaf_table), (compile_raw leaf_cache, Some leaf_table),
         (compile_raw leaf_cache, Some leaf_table), (compile_raw leaf_cache, Some leaf_table)])"
  by (simp add: simplify_with_caching_def MAX_SUBTREE_FACTORINGS_def eval_nat_numeral
      iter_first iter_next del: simplify_loop.simps(2))

lemma head_strict_run:
  "fst (head example_collaborators (new_executor True) sorted_plan 5)
   = Inr (compile_ordered_selection
            (SelectionNode
               (FilterNode (PromoteOffsetsNode sorted_cache ''offsets_1'')
                  (OpExpression ''lt''
                     [UnboundVariableExpression ''offsets_1'', ScalarConstantExpression 5]))
               [(''k'', ''k''), (''v'', ''v'')]), None)"
  by (simp add: head_def example_collaborators_def new_executor_def sorted_plan_def
      sorted_cache_def local_get_row_count_def get_optimized_plan_def cache_with_offsets_def
      sql_as_cached_temp_table_def run_execute_query_def as_cached_def register_cached_def
      MAX_CLUSTER_COLUMNS_def hidden_columns_def from_offset_col_def referenced_columns_def
      run_head_plan_def generate_head_plan_def prepend_def INT_DTYPE_def
      example_table_def example_typing_def names_def Let_def)

subsection \<open>The branches of \<open>head\<close>\<close>

text \<open>
  The branches of \<open>head\<close> as written, the raised errors included, and the derived plan
  it runs: the offset column is injected, the rows with offset below \<open>k\<close> are kept, and
  the columns of the plan's schema are selected under their own names.
\<close>

lemma head_branches:
  "head E ex n k =
     (if (\<exists>c. local_get_row_count E ex n = Some c \<and> c \<le> k) then execute E ex n True [] False
      else if \<not> strictly_ordered ex \<and> \<not> explicitly_ordered E n then peek E ex n k
      else if can_fast_head E (get_optimized_plan E ex n)
        then run_head_plan E ex (get_optimized_plan E ex n) k
      else if \<not> strictly_ordered ex then (Inl ValueError, ex)
      else (case cache_with_offsets E ex n of
              (Inl e, ex') \<Rightarrow> (Inl e, ex')
            | (Inr u, ex') \<Rightarrow>
                if can_fast_head E (get_optimized_plan E ex' n)
                then run_head_plan E ex' (get_optimized_plan E ex' n) k
                else (Inl AssertionError, ex'))) \<and>
   (schema (types E) plan = Inr s \<longrightarrow>
      run_head_plan E ex plan k =
        run_execute_query E ex
          (compile_ordered_selection
             (SelectionNode
                (FilterNode (PromoteOffsetsNode plan (generate_guid E ''offsets_''))
                   (OpExpression ''lt''
                      [UnboundVariableExpression (generate_guid E ''offsets_''),
                       ScalarConstantExpression k]))
                (map (\<lambda>i. (i, i)) (names s))), None) \<and>
      (distinct (names s) \<longrightarrow>
         selection_schema (types E)
           (SelectionNode
              (FilterNode (PromoteOffsetsNode plan (generate_guid E ''offsets_''))
                 (OpExpression ''lt''
                    [UnboundVariableExpression (generate_guid E ''offsets_''),
                     ScalarConstantExpression k]))
              (map (\<lambda>i. (i, i)) (names s))) = Inr s))"
proof (intro conjI impI)
  show "head E ex n k =
     (if (\<exists>c. local_get_row_count E ex n = Some c \<and> c \<le> k) then execute E ex n True [] False
      else if \<not> strictly_ordered ex \<and> \<not> explicitly_ordered E n then peek E ex n k
      else if can_fast_head E (get_optimized_plan E ex n)
        then run_head_plan E ex (get_optimized_plan E ex n) k
      else if \<not> strictly_ordered ex then (Inl ValueError, ex)
      else (case cache_with_offsets E ex n of
              (Inl e, ex') \<Rightarrow> (Inl e, ex')
            | (Inr u, ex') \<Rightarrow>
                if can_fast_head E (get_optimized_plan E ex' n)
                then run_head_plan E ex' (get_optimized_plan E ex' n) k
                else (Inl AssertionError, ex')))"
  proof (cases "strictly_ordered ex")
    case True
    then show ?thesis
      by (cases "local_get_row_count E ex n")
        (auto simp: head_def Let_def split: prod.splits sum.splits)
  next
    case False
    then have "cache_with_offsets E ex n = (Inl ValueError, ex)"
      by (simp add: cache_with_offsets_def)
    with False show ?thesis
      by (cases "local_get_row_count E ex n") (auto simp: head_def Let_def)
  qed
next
  assume s: "schema (types E) plan = Inr s"
  then show "run_head_plan E ex plan k =
        run_execute_query E ex
          (compile_ordered_selection
             (SelectionNode
                (FilterNode (PromoteOffsetsNode plan (generate_guid E ''offsets_''))
                   (OpExpression ''lt''
                      [UnboundVariableExpression (generate_guid E ''offsets_''),
                       ScalarConstantExpression k]))
                (map (\<lambda>i. (i, i)) (names s))), None)"
    by (simp add: run_head_plan_def generate_head_plan_def Let_def)
  assume "distinct (names s)"
  with s show "selection_schema (types E)
           (SelectionNode
              (FilterNode (PromoteOffsetsNode plan (generate_guid E ''offsets_''))
                 (OpExpression ''lt''
                    [UnboundVariableExpression (generate_guid E ''offsets_''),
                     ScalarConstantExpression k]))
              (map (\<lambda>i. (i, i)) (names s))) = Inr s"
    by (rule selection_keeps_schema)
qed

lemma head_branches_example:
  "schema (types example_collaborators) (ReadTableNode example_table)
     = Inr [(''k'', ''Int64''), (''v'', ''string'')] \<and>
   distinct (names [(''k'', ''Int64''), (''v'', ''string'')]) \<and>
   selection_schema (types example_collaborators)
     (SelectionNode
        (FilterNode (PromoteOffsetsNode (ReadTableNode example_table) ''offsets_1'')
           (OpExpression ''lt''
              [UnboundVariableExpression ''offsets_1'', ScalarConstantExpression 5]))
        [(''k'', ''k''), (''v'', ''v'')])
     = Inr [(''k'', ''Int64''), (''v'', ''string'')] \<and>
   head example_collaborators (new_executor False) (ReadTableNode example_table) 5
     = peek example_collaborators (new_executor False) (ReadTableNode example_table) 5 \<and>
   fst (head example_collaborators (new_executor True) sorted_plan 5)
     = Inr (compile_ordered_selection
              (SelectionNode
                 (FilterNode (PromoteOffsetsNode sorted_cache ''offsets_1'')
                    (OpExpression ''lt''
                       [UnboundVariableExpression ''offsets_1'', ScalarConstantExpression 5]))
                 [(''k'', ''k''), (''v'', ''v'')]), None)"
proof -
  have 1: "schema (types example_collaborators) (ReadTableNode example_table)
     = Inr [(''k'', ''Int64''), (''v'', ''string'')]"
    by (simp add: example_table_def)
  have 2: "distinct (names [(''k'', ''Int64''), (''v'', ''string'')])"
    by (simp add: names_def)
  have 3: "generate_guid example_collaborators ''offsets_'' = ''offsets_1''"
    by (simp add: example_collaborators_def)
  have 4: "\<not> (\<exists>c. local_get_row_count example_collaborators (new_executor False)
                  (ReadTableNode example_table) = Some c \<and> c \<le> 5)"
    and 5: "\<not> strictly_ordered (new_executor False)"
    and 6: "\<not> explicitly_ordered example_collaborators (ReadTableNode example_table)"
    by (simp_all add: local_get_row_count_def example_collaborators_def new_executor_def)
  note t = head_branches[of example_collaborators "new_executor False" "ReadTableNode example_table" 5
      "ReadTableNode example_table" "[(''k'', ''Int64''), (''v'', ''string'')]"]
  from t 4 5 6
  have h: "head example_collaborators (new_executor False) (ReadTableNode example_table) 5
             = peek example_collaborators (new_executor False) (ReadTableNode example_table) 5"
    by simp
  from t 1 2
  have "selection_schema (types example_collaborators)
          (SelectionNode
             (FilterNode
                (PromoteOffsetsNode (ReadTableNode example_table)
                   (generate_guid example_collaborators ''offsets_''))
                (OpExpression ''lt''
                   [UnboundVariableExpression (generate_guid example_collaborators ''offsets_''),
                    ScalarConstantExpression 5]))
             (map (\<lambda>i. (i, i)) (names [(''k'', ''Int64''), (''v'', ''string'')])))
        = Inr [(''k'', ''Int64''), (''v'', ''string'')]"
    by blast
  then have sel: "selection_schema (types example_collaborators)
     (SelectionNode
        (FilterNode (PromoteOffsetsNode (ReadTableNode example_table) ''offsets_1'')
           (OpExpression ''lt''
              [UnboundVariableExpression ''offsets_1'', ScalarConstantExpression 5]))
        [(''k'', ''k''), (''v'', ''v'')])
     = Inr [(''k'', ''Int64''), (''v'', ''string'')]"
    by (simp add: 3 names_def del: selection_schema.simps)
  from 1 2 sel h head_strict_run show ?thesis by blast
qed

section \<open>The claims\<close>







text \<open>
  C8. For every node \<open>w\<close> and every child \<open>c\<close> of it, the planning complexity of \<open>w\<close>
  is never less than that of \<open>c\<close> alone: every contribution to \<open>total_variables\<close>,
  \<open>total_relational_ops\<close> and \<open>total_joins\<close> is non-negative, so each of the three is
  non-decreasing from child to parent. (The \<^verbatim>\<open>original_node\<close> of a \<^verbatim>\<open>CachedTableNode\<close> is
  not a child.)
\<close>

theorem planning_complexity_monotone:
  assumes "c \<in> set (child_nodes w)"
    and "planning_complexity X c = Inr a" and "planning_complexity X w = Inr b"
  shows "a \<le> b"
proof -
  from assms(2) obtain tc where tc: "total_variables X c = Inr tc"
    and a: "a = tc * total_relational_ops c * (1 + total_joins c)"
    by (auto simp: planning_complexity_def bind_err_Inr_iff)
  from assms(3) obtain tw where tw: "total_variables X w = Inr tw"
    and b: "b = tw * total_relational_ops w * (1 + total_joins w)"
    by (auto simp: planning_complexity_def bind_err_Inr_iff)
  have 1: "tc \<le> tw" using total_variables_child[OF assms(1) tc tw] .
  have 2: "total_relational_ops c \<le> total_relational_ops w"
    using total_relational_ops_child[OF assms(1)] .
  have 3: "1 + total_joins c \<le> 1 + total_joins w"
    using total_joins_child[OF assms(1)] by simp
  have 4: "tc * total_relational_ops c \<le> tw * total_relational_ops w"
    using 1 2 total_variables_nonneg[OF tw] total_relational_ops_nonneg[of c]
    by (rule mult_mono)
  have 5: "0 \<le> tw * total_relational_ops w"
    using total_variables_nonneg[OF tw] total_relational_ops_nonneg[of w] by simp
  have 6: "0 \<le> 1 + total_joins c"
    using total_joins_nonneg[of c] by simp
  show ?thesis
    unfolding a b using 4 3 5 6 by (rule mult_mono)
qed

theorem planning_complexity_monotone_witness:
  "ReadTableNode example_table
     \<in> set (child_nodes (JoinNode (ReadTableNode example_table) example_local
               \<lparr>conditions = [], mappings = [], join_type = ''inner''\<rparr>)) \<and>
   planning_complexity example_typing (ReadTableNode example_table) = Inr 9 \<and>
   planning_complexity example_typing
     (JoinNode (ReadTableNode example_table) example_local
        \<lparr>conditions = [], mappings = [], join_type = ''inner''\<rparr>) = Inr 110 \<and>
   (9::int) \<le> 110"
proof -
  let ?c = "ReadTableNode example_table"
  let ?w = "JoinNode ?c example_local \<lparr>conditions = [], mappings = [], join_type = ''inner''\<rparr>"
  have 1: "?c \<in> set (child_nodes ?w)" by simp
  have 2: "planning_complexity example_typing ?c = Inr 9"
    by (simp add: planning_complexity_def total_variables.simps total_relational_ops.simps
        total_joins.simps example_table_def)
  have 3: "planning_complexity example_typing ?w = Inr 110"
    by (simp add: planning_complexity_def total_variables.simps total_relational_ops.simps
        total_joins.simps example_table_def example_local_def OVERHEAD_VARIABLES_def)
  from planning_complexity_monotone[OF 1 2 3] 1 2 3 show ?thesis by simp
qed

text \<open>
  C10. For every successfully constructed \<^verbatim>\<open>ConcatNode\<close>, the schema has exactly as many
  columns as the schema of the first child, and column \<open>i\<close> is named \<open>column_i\<close> and
  carries the \<open>i\<close>-th type of the first child's schema: the children's column names do
  not appear in it.
\<close>

theorem concat_schema_columns:
  assumes "post_init X (ConcatNode children) = Inr ()"
  shows "\<exists>c cs s s'. children = c # cs \<and> schema X c = Inr s \<and>
           schema X (ConcatNode children) = Inr s' \<and> length s' = length s \<and>
           (\<forall>i < length s. s' ! i = (''column_'' @ str_nat i, snd (s ! i)))"
proof -
  from post_init_Concat_schema[OF assms] obtain c cs s
    where ch: "children = c # cs" and s: "schema X c = Inr s" by blast
  have "schema X (ConcatNode children) = Inr (concat_items (dtypes s))"
    using ch s by simp
  moreover have "length (concat_items (dtypes s)) = length s"
    by (simp add: concat_items_length dtypes_def)
  moreover have "\<forall>i < length s. concat_items (dtypes s) ! i = (''column_'' @ str_nat i, snd (s ! i))"
    by (simp add: concat_items_nth dtypes_def del: str_nat.simps)
  ultimately show ?thesis using ch s by blast
qed

theorem concat_schema_columns_witness:
  "post_init example_typing (ConcatNode [ReadTableNode example_table, example_local]) = Inr () \<and>
   (\<exists>s'. schema example_typing (ConcatNode [ReadTableNode example_table, example_local]) = Inr s' \<and>
      length s' = 2 \<and> s' ! 0 = (''column_0'', ''Int64'') \<and> s' ! 1 = (''column_1'', ''string''))"
proof -
  let ?cs = "[ReadTableNode example_table, example_local]"
  have h: "post_init example_typing (ConcatNode ?cs) = Inr ()"
    by (simp add: example_table_def example_local_def dtypes_def)
  from concat_schema_columns[OF h] obtain c cs s s'
    where c: "?cs = c # cs" and s: "schema example_typing c = Inr s"
      and s': "schema example_typing (ConcatNode ?cs) = Inr s'" and len: "length s' = length s"
      and nth: "\<forall>i < length s. s' ! i = (''column_'' @ str_nat i, snd (s ! i))"
    by blast
  from c have "c = ReadTableNode example_table" by simp
  with s have sv: "s = [(''k'', ''Int64''), (''v'', ''string'')]"
    by (simp add: example_table_def)
  from nth sv have "s' ! 0 = (''column_'' @ str_nat 0, ''Int64'')"
    and "s' ! 1 = (''column_'' @ str_nat 1, ''string'')"
    by (simp_all del: str_nat.simps)
  then have "s' ! 0 = (''column_0'', ''Int64'')" "s' ! 1 = (''column_1'', ''string'')"
    by (simp_all only: str_nat_0 str_nat_1 append.simps)
  with h s' len sv show ?thesis by simp
qed

text \<open>
  C5. The construction errors are raised by \<^verbatim>\<open>__post_init__\<close>, when the node is
  constructed and before its \<open>schema\<close> is ever read: a \<^verbatim>\<open>ConcatNode\<close> with zero children,
  or with children whose type sequences differ; an \<^verbatim>\<open>OrderByNode\<close> with a sort expression
  that refers to a variable absent from the child's schema; a \<^verbatim>\<open>ReadTableNode\<close> whose
  requested columns are not a subset of the physical column names, or whose sequential
  flag is set while the number of total-order columns is not one; a \<^verbatim>\<open>CachedTableNode\<close>
  whose logical columns or hidden ordering columns are not a subset of the physical
  schema. Each raises \<^verbatim>\<open>ValueError\<close>.
\<close>

theorem construction_errors:
  "post_init X (ConcatNode []) = Inl ValueError \<and>
   (map_err (schema X) children = Inr ss \<and> (\<exists>a \<in> set ss. \<exists>b \<in> set ss. dtypes a \<noteq> dtypes b)
      \<longrightarrow> post_init X (ConcatNode children) = Inl ValueError) \<and>
   (schema X child = Inr s \<and>
    (\<exists>order_expr \<in> set by_exprs.
       \<exists>variable \<in> set (unbound_variables (scalar_expression order_expr)).
         variable \<notin> set (names s))
      \<longrightarrow> post_init X (OrderByNode child by_exprs) = Inl ValueError) \<and>
   (\<not> set (names (columns t)) \<subseteq> set (map name (physical_schema t))
      \<longrightarrow> post_init X (ReadTableNode t) = Inl ValueError) \<and>
   (order_col_is_sequential t \<and> length (total_order_cols t) \<noteq> 1
      \<longrightarrow> post_init X (ReadTableNode t) = Inl ValueError) \<and>
   (schema X original_node = Inr s' \<and> \<not> set (names s') \<subseteq> set (map name phys)
      \<longrightarrow> post_init X (CachedTableNode original_node p d tb phys ord) = Inl ValueError) \<and>
   (schema X original_node = Inr s' \<and> hidden_columns X original_node ord = Inr hidden \<and>
    \<not> set hidden \<subseteq> set (map name phys)
      \<longrightarrow> post_init X (CachedTableNode original_node p d tb phys ord) = Inl ValueError)"
proof -
  have concat: "post_init X (ConcatNode children) = Inl ValueError"
    if ss: "map_err (schema X) children = Inr ss"
      and ab: "\<exists>a \<in> set ss. \<exists>b \<in> set ss. dtypes a \<noteq> dtypes b" for children ss
  proof (cases "children = []")
    case True
    then show ?thesis by simp
  next
    case False
    have m: "map_err (\<lambda>child. bind_err (schema X child) (\<lambda>s. Inr (dtypes s))) children
               = Inr (map dtypes ss)"
      using map_err_comp_Inr[OF ss] .
    from ab obtain a b where "a \<in> set ss" "b \<in> set ss" "dtypes a \<noteq> dtypes b" by blast
    then have "card (set (map dtypes ss)) \<noteq> 1"
      by (intro card_set_two[of "dtypes a" _ "dtypes b"]) auto
    with False m show ?thesis by simp
  qed
  show ?thesis
    using concat by (auto simp: Let_def)
qed

theorem construction_errors_witness:
  "map_err (schema example_typing)
     [ReadTableNode example_table, ReadLocalNode [] [(''a'', ''Int64'')] None]
     = Inr [[(''k'', ''Int64''), (''v'', ''string'')], [(''a'', ''Int64'')]] \<and>
   post_init example_typing
     (ConcatNode [ReadTableNode example_table, ReadLocalNode [] [(''a'', ''Int64'')] None])
     = Inl ValueError \<and>
   schema example_typing (ReadTableNode example_table)
     = Inr [(''k'', ''Int64''), (''v'', ''string'')] \<and>
   post_init example_typing
     (OrderByNode (ReadTableNode example_table)
        [OrderingExpression (UnboundVariableExpression ''missing'') True True]) = Inl ValueError \<and>
   \<not> set (names (columns bad_table)) \<subseteq> set (map name (physical_schema bad_table)) \<and>
   order_col_is_sequential bad_table \<and> length (total_order_cols bad_table) \<noteq> 1 \<and>
   post_init example_typing (ReadTableNode bad_table) = Inl ValueError \<and>
   hidden_columns example_typing (ReadTableNode example_table) (Some (from_offset_col ''off''))
     = Inr [''off''] \<and>
   post_init example_typing
     (CachedTableNode (ReadTableNode example_table) ''p'' ''d'' ''c'' []
        (Some (from_offset_col ''off''))) = Inl ValueError"
proof -
  have 1: "map_err (schema example_typing)
     [ReadTableNode example_table, ReadLocalNode [] [(''a'', ''Int64'')] None]
     = Inr [[(''k'', ''Int64''), (''v'', ''string'')], [(''a'', ''Int64'')]]"
    by (simp add: example_table_def)
  have 2: "schema example_typing (ReadTableNode example_table)
             = Inr [(''k'', ''Int64''), (''v'', ''string'')]"
    by (simp add: example_table_def)
  have 3: "\<not> set (names (columns bad_table)) \<subseteq> set (map name (physical_schema bad_table))"
    by (simp add: bad_table_def example_table_def names_def)
  have 4: "order_col_is_sequential bad_table \<and> length (total_order_cols bad_table) \<noteq> 1"
    by (simp add: bad_table_def example_table_def)
  have 5: "hidden_columns example_typing (ReadTableNode example_table)
             (Some (from_offset_col ''off'')) = Inr [''off'']"
    by (simp add: hidden_columns_def from_offset_col_def referenced_columns_def
        example_table_def names_def)
  show ?thesis
    using 1 2 3 4 5
      construction_errors[of example_typing
        "[ReadTableNode example_table, ReadLocalNode [] [(''a'', ''Int64'')] None]"
        "[[(''k'', ''Int64''), (''v'', ''string'')], [(''a'', ''Int64'')]]"
        "ReadTableNode example_table" "[(''k'', ''Int64''), (''v'', ''string'')]"
        "[OrderingExpression (UnboundVariableExpression ''missing'') True True]"
        bad_table "ReadTableNode example_table" "[(''k'', ''Int64''), (''v'', ''string'')]"
        "[]" "''p''" "''d''" "''c''" "Some (from_offset_col ''off'')" "[''off'']"]
    by (simp add: dtypes_def names_def)
qed

text \<open>
  C6, as the claim states it, fails in its last part: no \<^verbatim>\<open>__post_init__\<close> reads
  \<open>session\<close>, so a \<^verbatim>\<open>JoinNode\<close> over two table reads owned by different sessions is
  constructed without an error; the \<^verbatim>\<open>ValueError\<close> is raised only when the \<open>session\<close>
  property of that node is read.
\<close>

theorem mixed_sessions_constructed:
  "constructed example_typing
     (JoinNode (ReadTableNode example_table) (ReadTableNode other_table) example_join) \<and>
   session (JoinNode (ReadTableNode example_table) (ReadTableNode other_table) example_join)
     = Inl ValueError"
  by (simp add: constructed.simps example_table_def other_table_def names_def
      resolve_sessions_def)

text \<open>
  C6, amended. Reading \<open>session\<close> on a node resolves the owning sessions collected
  transitively from its descendants: none when zero distinct sessions are found, that
  session when exactly one is found, and a \<^verbatim>\<open>ValueError\<close> when more than one is found.
  The error is raised when the property is read, not at construction: a \<^verbatim>\<open>JoinNode\<close>
  over any two constructed trees is constructed, whatever their sessions.
\<close>

theorem session_resolution:
  "session n = resolve_distinct (descendant_sessions n) \<and>
   (constructed X left_child \<and> constructed X right_child
      \<longrightarrow> constructed X (JoinNode left_child right_child j))"
  using session_refines[of n]
  by (simp add: constructed.simps[of X "JoinNode left_child right_child j"])

theorem session_resolution_witness:
  "constructed example_typing (ReadTableNode example_table) \<and>
   constructed example_typing (ReadTableNode other_table) \<and>
   constructed example_typing
     (JoinNode (ReadTableNode example_table) (ReadTableNode other_table) example_join) \<and>
   session (JoinNode (ReadTableNode example_table) (ReadTableNode example_table) example_join)
     = Inr (Some 1)"
proof -
  have 1: "constructed example_typing (ReadTableNode example_table)"
    by (simp add: constructed.simps example_table_def names_def)
  have 2: "constructed example_typing (ReadTableNode other_table)"
    by (simp add: constructed.simps example_table_def other_table_def names_def)
  have 3: "resolve_distinct (descendant_sessions
             (JoinNode (ReadTableNode example_table) (ReadTableNode example_table) example_join))
           = Inr (Some 1)"
    by (simp add: resolve_distinct_def example_table_def)
  show ?thesis
    using 1 2 3
      session_resolution[of
        "JoinNode (ReadTableNode example_table) (ReadTableNode example_table) example_join"
        example_typing "ReadTableNode example_table" "ReadTableNode other_table" example_join]
    by simp
qed





text \<open>
  C7. Complexity-bounded factoring ends within the budget of 5 iterations, whatever the
  tree: a call of \<^verbatim>\<open>_simplify_with_caching\<close> submits at most 5 materialization jobs.
  On each iteration it stops, leaving the executor as it is, if the complexity of the
  cache-optimized plan is below the ceiling, or if no cache target qualifies between the
  ceiling divided by 500 and the ceiling. With the budget used up it returns normally,
  whatever the complexity then is, and \<open>execute\<close> compiles and submits the optimized
  plan without looking at the complexity again.
\<close>

theorem factoring_budget:
  "(simplify_with_caching E ex n = (r, ex')
      \<longrightarrow> length (jobs ex') \<le> length (jobs ex) + 5) \<and>
   (planning_complexity (types E) (get_optimized_plan E ex n) = Inr c \<and>
    c < QUERY_COMPLEXITY_LIMIT
      \<longrightarrow> simplify_loop E (Suc i) ex n = (Inr (), ex)) \<and>
   (planning_complexity (types E) (get_optimized_plan E ex n) = Inr c \<and>
    \<not> c < QUERY_COMPLEXITY_LIMIT \<and>
    select_cache_target E n (QUERY_COMPLEXITY_LIMIT div 500) QUERY_COMPLEXITY_LIMIT
      (cached_executions ex) = None
      \<longrightarrow> simplify_loop E (Suc i) ex n = (Inr (), ex)) \<and>
   simplify_loop E 0 ex n = (Inr (), ex) \<and>
   (enable_multi_query_execution E \<and> simplify_with_caching E ex n = (Inr (), ex')
      \<longrightarrow> execute E ex n ordered overrides False
          = run_execute_query E ex' (to_sql E ex' n None overrides ordered True, None))"
proof -
  have "length (jobs ex') \<le> length (jobs ex) + 5" if "simplify_with_caching E ex n = (r, ex')"
    using simplify_loop_jobs[of E MAX_SUBTREE_FACTORINGS ex n r ex'] that
    by (simp add: simplify_with_caching_def MAX_SUBTREE_FACTORINGS_def)
  then show ?thesis
    by (auto simp: Let_def cache_most_complex_subtree_def execute_def)
qed

theorem factoring_budget_witness:
  "simplify_with_caching example_collaborators (new_executor True) wide_plan
     = (Inr (), cached_state
          [(compile_raw (ReadTableNode example_table), Some leaf_table),
           (compile_raw leaf_cache, Some leaf_table), (compile_raw leaf_cache, Some leaf_table),
           (compile_raw leaf_cache, Some leaf_table), (compile_raw leaf_cache, Some leaf_table)]) \<and>
   planning_complexity (types example_collaborators)
     (get_optimized_plan example_collaborators
        (cached_state
          [(compile_raw (ReadTableNode example_table), Some leaf_table),
           (compile_raw leaf_cache, Some leaf_table), (compile_raw leaf_cache, Some leaf_table),
           (compile_raw leaf_cache, Some leaf_table), (compile_raw leaf_cache, Some leaf_table)])
        wide_plan) = Inr 24000024 \<and>
   \<not> (24000024 :: int) < QUERY_COMPLEXITY_LIMIT \<and>
   enable_multi_query_execution example_collaborators \<and>
   fst (execute example_collaborators (new_executor True) wide_plan True [] False)
     = Inr (compile_ordered wide_plan [], None) \<and>
   planning_complexity (types example_collaborators)
     (get_optimized_plan example_collaborators (new_executor True) (ReadTableNode example_table))
     = Inr 9 \<and>
   (9 :: int) < QUERY_COMPLEXITY_LIMIT \<and>
   simplify_loop example_collaborators (Suc 4) (new_executor True) (ReadTableNode example_table)
     = (Inr (), new_executor True) \<and>
   select_cache_target no_target wide_plan (QUERY_COMPLEXITY_LIMIT div 500)
     QUERY_COMPLEXITY_LIMIT (cached_executions (new_executor True)) = None \<and>
   simplify_loop no_target (Suc 4) (new_executor True) wide_plan = (Inr (), new_executor True)"
proof -
  let ?js = "[(compile_raw (ReadTableNode example_table), Some leaf_table),
           (compile_raw leaf_cache, Some leaf_table), (compile_raw leaf_cache, Some leaf_table),
           (compile_raw leaf_cache, Some leaf_table), (compile_raw leaf_cache, Some leaf_table)]"
  have 1: "simplify_with_caching example_collaborators (new_executor True) wide_plan
             = (Inr (), cached_state ?js)"
    by (rule simplify_wide)
  have 2: "planning_complexity (types example_collaborators)
             (get_optimized_plan example_collaborators (cached_state ?js) wide_plan)
           = Inr 24000024"
    by (simp add: plan_wide_cached types_example wide_plan_complexity)
  have 3: "\<not> (24000024 :: int) < QUERY_COMPLEXITY_LIMIT" "(9 :: int) < QUERY_COMPLEXITY_LIMIT"
    by (simp_all add: QUERY_COMPLEXITY_LIMIT_def)
  have 4: "enable_multi_query_execution example_collaborators"
    by (simp add: example_collaborators_def)
  have 5: "planning_complexity (types example_collaborators)
     (get_optimized_plan example_collaborators (new_executor True) (ReadTableNode example_table))
     = Inr 9"
    by (simp add: get_optimized_plan_def example_collaborators_def new_executor_def
        planning_complexity_def total_variables.simps total_relational_ops.simps
        total_joins.simps example_table_def)
  have 6: "select_cache_target no_target wide_plan (QUERY_COMPLEXITY_LIMIT div 500)
     QUERY_COMPLEXITY_LIMIT (cached_executions (new_executor True)) = None"
    by (simp add: no_target_def)
  have 7: "planning_complexity (types no_target)
             (get_optimized_plan no_target (new_executor True) wide_plan) = Inr 24000024"
    using wide_plan_complexity
    by (simp add: no_target_def get_optimized_plan_def example_collaborators_def new_executor_def)
  have 8: "run_execute_query example_collaborators (cached_state ?js)
             (to_sql example_collaborators (cached_state ?js) wide_plan None [] True True, None)
           = (Inr (compile_ordered wide_plan [], None),
              cached_state (?js @ [(compile_ordered wide_plan [], None)]))"
  proof -
    have "submit example_collaborators j = Rows" for j
      by (simp add: example_collaborators_def)
    moreover have "(cached_state js)\<lparr>jobs := js'\<rparr> = cached_state js'" for js js'
      by (simp add: cached_state_def)
    moreover have "jobs (cached_state js) = js" for js
      by (simp add: cached_state_def)
    ultimately show ?thesis
      by (simp add: run_execute_query_def to_sql_def plan_wide_cached Let_def)
  qed
  note a = factoring_budget[of example_collaborators "new_executor True" wide_plan "Inr ()"
      "cached_state ?js" 24000024 4 True "[]"]
  note b = factoring_budget[of example_collaborators "new_executor True" "ReadTableNode example_table"
      "Inr ()" "new_executor True" 9 4 True "[]"]
  note c = factoring_budget[of no_target "new_executor True" wide_plan "Inr ()" "new_executor True"
      24000024 4 True "[]"]
  from a 1 4 8
  have e: "fst (execute example_collaborators (new_executor True) wide_plan True [] False)
             = Inr (compile_ordered wide_plan [], None)"
    by simp
  from b 5 3
  have f: "simplify_loop example_collaborators (Suc 4) (new_executor True)
             (ReadTableNode example_table) = (Inr (), new_executor True)"
    by blast
  from c 6 7 3
  have g: "simplify_loop no_target (Suc 4) (new_executor True) wide_plan
             = (Inr (), new_executor True)"
    by blast
  from 1 2 3 4 5 6 e f g show ?thesis by blast
qed

end
